theory Spec2Isabelle
  imports Main
begin

section \<open>The IPC validator client of privval/ipc\_client.go\<close>

text \<open>
  The file defines one stateful type, \<^verbatim>\<open>IPCVal\<close>, with a constructor, two options, the
  service hooks \<^verbatim>\<open>OnStart\<close> and \<^verbatim>\<open>OnStop\<close>, the helper \<^verbatim>\<open>connect\<close> and the
  goroutine that \<^verbatim>\<open>OnStart\<close> launches. The methods mutate the struct and act on
  the operating system (sockets), the Go runtime (channels, tickers, goroutines) and the
  logger. The embedding passes one record through every method: the fields of the struct,
  followed by the part of the process state the methods act on and the trace of the
  effects they performed, in program order.

  What the collaborators answer is not decided by this file: whether the address resolves
  and the dial succeeds, what \<^verbatim>\<open>NewRemoteSignerClient\<close> returns, what \<^verbatim>\<open>Ping\<close> returns.
  Each method of the model takes these answers as arguments.
\<close>

subsection \<open>Values\<close>

text \<open>\<^verbatim>\<open>time.Duration\<close>, a signed count of nanoseconds.\<close>

type_synonym duration = int

text \<open>
  Go \<^verbatim>\<open>error\<close> values. The monitor compares the error of \<^verbatim>\<open>Ping\<close> with the sentinel
  \<^verbatim>\<open>ErrUnexpectedResponse\<close>; every other error carries its message. A nil error is
  \<open>None\<close> of \<open>error option\<close>.
\<close>

datatype error = ErrUnexpectedResponse | ErrOther string

text \<open>
  A panic of the Go runtime or of the standard library: \<^verbatim>\<open>close\<close> of a closed channel,
  \<^verbatim>\<open>time.NewTicker\<close> with a duration that is not positive, a nil pointer dereference.
\<close>

datatype panic = PanicCloseOfClosedChannel | PanicNonPositiveInterval | PanicNilDereference

text \<open>
  \<^verbatim>\<open>newTimeoutConn(conn, sc.connTimeout)\<close>: the raw connection (numbered in the order in
  which \<^verbatim>\<open>net.DialUnix\<close> opened them) wrapped with the timeout for its reads and writes.
\<close>

datatype timeoutConn = TimeoutConn (rawConn: nat) (timeout: duration)

text \<open>The identity of a \<^verbatim>\<open>*RemoteSignerClient\<close>; the nil pointer is \<open>None\<close>.\<close>

type_synonym client = nat

text \<open>\<^verbatim>\<open>chan struct{}\<close>: nothing is ever sent on it, so a channel is open or closed.\<close>

datatype chan = ChanOpen | ChanClosed

text \<open>\<^verbatim>\<open>*time.Ticker\<close>: its period and whether it still runs.\<close>

datatype ticker = Ticker (period: duration) (running: bool)

text \<open>The effects of the methods, as the trace records them.\<close>

datatype event =
    EvResolve string
  | EvDial string
  | EvLock
  | EvUnlock
  | EvRLock
  | EvRUnlock
  | EvStoreConn timeoutConn
  | EvHandshake "timeoutConn option"
  | EvStoreClient "client option"
  | EvMakeChan
  | EvNewTicker duration
  | EvGo
  | EvPing
  | EvClose nat
  | EvCloseChan
  | EvTickerStop
  | EvLogError string error
  | EvLogInfo string

subsection \<open>The struct and the state around it\<close>

text \<open>
  The first seven fields are the fields of \<^verbatim>\<open>IPCVal\<close> (the embedded
  \<^verbatim>\<open>*RemoteSignerClient\<close> under its type's name; the embedded \<^verbatim>\<open>BaseService\<close> only
  supplies the logger, whose calls are trace events; \<^verbatim>\<open>connMtx\<close> is seen through
  its lock and unlock events). The others are the state outside the struct:
  \<open>dialed\<close> counts the raw connections opened so far (the next one gets this number),
  \<open>closedConns\<close> holds the raw connections that were closed, \<open>spawned\<close> counts the
  goroutines launched by \<^verbatim>\<open>go func() {...}()\<close>.
\<close>

record IPCVal =
  addr :: string
  connTimeout :: duration
  connHeartbeat :: duration
  conn :: "timeoutConn option"
  RemoteSignerClient :: "client option"
  cancelPing :: "chan option"
  pingTicker :: "ticker option"
  dialed :: nat
  closedConns :: "nat set"
  spawned :: nat
  trace :: "event list"

definition emit :: "event list \<Rightarrow> IPCVal \<Rightarrow> IPCVal" where
  "emit evs s = s\<lparr>trace := trace s @ evs\<rparr>"

text \<open>
  The package-level variables \<^verbatim>\<open>connTimeout\<close> and \<^verbatim>\<open>connHeartbeat\<close> that
  \<^verbatim>\<open>NewIPCVal\<close> reads. They are declared in another file of the package, so their
  values are a parameter here; they are not arguments of the Go constructor.
\<close>

record pkg_vars =
  pkg_connTimeout :: duration
  pkg_connHeartbeat :: duration

subsection \<open>Constructor and options\<close>

text \<open>
  \<^verbatim>\<open>NewIPCVal(logger, socketAddr)\<close>: the address and the two package defaults; every
  other field has Go's zero value (nil). The instance starts in a process that has
  opened no connection and launched no goroutine.
\<close>

definition NewIPCVal :: "pkg_vars \<Rightarrow> string \<Rightarrow> IPCVal" where
  "NewIPCVal pkg socketAddr =
     \<lparr> addr = socketAddr,
       connTimeout = pkg_connTimeout pkg,
       connHeartbeat = pkg_connHeartbeat pkg,
       conn = None,
       RemoteSignerClient = None,
       cancelPing = None,
       pingTicker = None,
       dialed = 0,
       closedConns = {},
       spawned = 0,
       trace = [] \<rparr>"

text \<open>
  \<^verbatim>\<open>IPCValConnTimeout(timeout)\<close> and \<^verbatim>\<open>IPCValHeartbeat(period)\<close> return a function on
  \<^verbatim>\<open>*IPCVal\<close> that stores the value in its field.
\<close>

definition IPCValConnTimeout :: "duration \<Rightarrow> IPCVal \<Rightarrow> IPCVal" where
  "IPCValConnTimeout t sc = sc\<lparr>connTimeout := t\<rparr>"

definition IPCValHeartbeat :: "duration \<Rightarrow> IPCVal \<Rightarrow> IPCVal" where
  "IPCValHeartbeat p sc = sc\<lparr>connHeartbeat := p\<rparr>"

subsection \<open>connect\<close>

text \<open>What the operating system answers to \<^verbatim>\<open>net.ResolveUnixAddr\<close> and \<^verbatim>\<open>net.DialUnix\<close>.\<close>

datatype dial_outcome = ResolveFails error | DialFails error | DialOK

text \<open>
  \<^verbatim>\<open>connect\<close> returns the resolver's or the dialer's error before it touches the
  struct. Otherwise it takes the write lock, stores the wrapped connection, returns nil
  and (deferred) releases the lock.
\<close>

definition connect :: "dial_outcome \<Rightarrow> IPCVal \<Rightarrow> error option \<times> IPCVal" where
  "connect d s =
     (case d of
        ResolveFails e \<Rightarrow> (Some e, emit [EvResolve (addr s)] s)
      | DialFails e \<Rightarrow> (Some e, emit [EvResolve (addr s), EvDial (addr s)] s)
      | DialOK \<Rightarrow>
          (let c = TimeoutConn (dialed s) (connTimeout s) in
           (None,
            emit [EvResolve (addr s), EvDial (addr s), EvLock, EvStoreConn c, EvUnlock]
              (s\<lparr>dialed := Suc (dialed s), conn := Some c\<rparr>))))"

subsection \<open>Closing a connection\<close>

text \<open>
  \<^verbatim>\<open>sc.conn.Close()\<close>: closing a connection that is already closed returns an error
  and changes nothing.
\<close>

definition errClosed :: error where
  "errClosed = ErrOther ''use of closed network connection''"

definition connClose :: "timeoutConn \<Rightarrow> IPCVal \<Rightarrow> error option \<times> IPCVal" where
  "connClose c s =
     (if rawConn c \<in> closedConns s
      then (Some errClosed, emit [EvClose (rawConn c)] s)
      else (None, emit [EvClose (rawConn c)]
                    (s\<lparr>closedConns := insert (rawConn c) (closedConns s)\<rparr>)))"

text \<open>
  The pattern \<^verbatim>\<open>if err := sc.conn.Close(); err != nil { sc.Logger.Error(msg, "err", err) }\<close>,
  used by the monitor and by \<^verbatim>\<open>OnStop\<close>.
\<close>

definition closeAndLog :: "string \<Rightarrow> timeoutConn \<Rightarrow> IPCVal \<Rightarrow> IPCVal" where
  "closeAndLog msg c s =
     (case connClose c s of
        (None, s') \<Rightarrow> s'
      | (Some e, s') \<Rightarrow> emit [EvLogError msg e] s')"

subsection \<open>OnStart\<close>

text \<open>
  What \<^verbatim>\<open>NewRemoteSignerClient(sc.conn)\<close> returns: a pointer and an error. The
  assignment \<^verbatim>\<open>sc.RemoteSignerClient, err = NewRemoteSignerClient(sc.conn)\<close> stores the
  pointer whatever the error is.
\<close>

type_synonym handshake = "client option \<times> error option"

definition storeClient :: "handshake \<Rightarrow> IPCVal \<Rightarrow> IPCVal" where
  "storeClient h s =
     emit [EvHandshake (conn s), EvStoreClient (fst h)] (s\<lparr>RemoteSignerClient := fst h\<rparr>)"

text \<open>
  \<^verbatim>\<open>OnStart\<close> returns an error (\<open>Inr\<close>, nil is \<open>None\<close>) or panics (\<open>Inl\<close>):
  \<^verbatim>\<open>time.NewTicker\<close> panics when the heartbeat is not positive. The read lock taken
  after \<^verbatim>\<open>connect\<close> is released by the deferred \<^verbatim>\<open>RUnlock\<close> on every way out.
\<close>

definition OnStart :: "dial_outcome \<Rightarrow> handshake \<Rightarrow> IPCVal \<Rightarrow> (panic + error option) \<times> IPCVal" where
  "OnStart d h s =
     (case connect d s of
        (Some e, s1) \<Rightarrow> (Inr (Some e), emit [EvLogError ''OnStart'' e] s1)
      | (None, s1) \<Rightarrow>
          (let s2 = storeClient h (emit [EvRLock] s1) in
           case snd h of
             Some e \<Rightarrow> (Inr (Some e), emit [EvRUnlock] s2)
           | None \<Rightarrow>
               (let s3 = emit [EvMakeChan] (s2\<lparr>cancelPing := Some ChanOpen\<rparr>) in
                if connHeartbeat s3 \<le> 0
                then (Inl PanicNonPositiveInterval, emit [EvRUnlock] s3)
                else (Inr None,
                      emit [EvNewTicker (connHeartbeat s3), EvGo, EvRUnlock]
                        (s3\<lparr>pingTicker := Some (Ticker (connHeartbeat s3) True),
                            spawned := Suc (spawned s3)\<rparr>)))))"

subsection \<open>The monitor goroutine\<close>

text \<open>
  One pass through \<^verbatim>\<open>select\<close>: the case the runtime took. A tick comes with the
  answers of the collaborators the pass may call: \<^verbatim>\<open>Ping\<close>, then \<^verbatim>\<open>connect\<close>, then
  \<^verbatim>\<open>NewRemoteSignerClient\<close>.
\<close>

datatype select_case = Tick "error option" dial_outcome handshake | Cancel

text \<open>How a pass ends: the loop goes on, the goroutine returns, or it panics.\<close>

datatype flow = Continue | Return | Panic panic

text \<open>
  The body of the loop. Evaluating \<^verbatim>\<open>sc.pingTicker.C\<close> dereferences the ticker. The
  case \<^verbatim>\<open><-sc.cancelPing\<close> is ready only on a closed channel (nothing is ever sent);
  on a nil or open channel the goroutine stays blocked in \<^verbatim>\<open>select\<close>. A tick can
  still be buffered after the ticker was stopped, so the tick case only needs the ticker
  to exist. What \<^verbatim>\<open>Ping\<close> does on a nil client is decided by \<^verbatim>\<open>Ping\<close>, in another
  file: its answer is a parameter in every case.
\<close>

definition monitor_iter :: "select_case \<Rightarrow> IPCVal \<Rightarrow> flow \<times> IPCVal" where
  "monitor_iter c s =
     (case pingTicker s of
        None \<Rightarrow> (Panic PanicNilDereference, s)
      | Some tk \<Rightarrow>
          (case c of
             Cancel \<Rightarrow>
               (if cancelPing s = Some ChanClosed
                then (Return, emit [EvTickerStop] (s\<lparr>pingTicker := Some (Ticker (period tk) False)\<rparr>))
                else (Continue, s))
           | Tick p d h \<Rightarrow>
               (let s1 = emit [EvPing] s in
                case p of
                  None \<Rightarrow> (Continue, s1)
                | Some e \<Rightarrow>
                    (let s2 = emit [EvLogError ''Ping'' e] s1 in
                     if e = ErrUnexpectedResponse then (Return, s2)
                     else
                       (case connect d s2 of
                          (Some e', s3) \<Rightarrow>
                            (Continue, emit [EvLogError ''Reconnecting to remote signer failed'' e'] s3)
                        | (None, s3) \<Rightarrow>
                            (let s4 = emit [EvRUnlock] (storeClient h (emit [EvRLock] s3)) in
                             case snd h of
                               Some e'' \<Rightarrow>
                                 (let s5 = emit [EvLogError ''Re-initializing remote signer client failed'' e'', EvRLock] s4 in
                                  case conn s5 of
                                    None \<Rightarrow> (Panic PanicNilDereference, s5)
                                  | Some tc \<Rightarrow>
                                      (Continue, emit [EvRUnlock] (closeAndLog ''error closing connection'' tc s5)))
                             | None \<Rightarrow>
                                 (Continue, emit [EvLogInfo ''Re-created connection to remote signer''] s4)))))))"

text \<open>
  \<^verbatim>\<open>for { select { ... } }\<close> over the cases the runtime takes, in order: \<^verbatim>\<open>continue\<close>
  and the end of the body go to the next case, \<^verbatim>\<open>return\<close> and a panic end the
  goroutine, which takes no further case. When the cases run out the goroutine is still
  in the loop, blocked in \<^verbatim>\<open>select\<close>.
\<close>

fun monitor_loop :: "select_case list \<Rightarrow> IPCVal \<Rightarrow> flow \<times> IPCVal" where
  "monitor_loop [] s = (Continue, s)"
| "monitor_loop (c # cs) s =
     (case monitor_iter c s of
        (Continue, s') \<Rightarrow> monitor_loop cs s'
      | (Return, s') \<Rightarrow> (Return, s')
      | (Panic p, s') \<Rightarrow> (Panic p, s'))"

subsection \<open>OnStop\<close>

text \<open>
  \<^verbatim>\<open>OnStop\<close> has no result; it returns (\<open>None\<close>) or panics: \<^verbatim>\<open>close\<close> of a channel
  that is already closed panics, before the lock is taken.
\<close>

definition OnStop :: "IPCVal \<Rightarrow> panic option \<times> IPCVal" where
  "OnStop s =
     (case cancelPing s of
        Some ChanClosed \<Rightarrow> (Some PanicCloseOfClosedChannel, emit [EvCloseChan] s)
      | ch \<Rightarrow>
          (let s1 = (case ch of
                       None \<Rightarrow> s
                     | Some _ \<Rightarrow> emit [EvCloseChan] (s\<lparr>cancelPing := Some ChanClosed\<rparr>));
               s2 = emit [EvRLock] s1;
               s3 = (case conn s2 of
                       None \<Rightarrow> s2
                     | Some tc \<Rightarrow> closeAndLog ''OnStop'' tc s2)
           in (None, emit [EvRUnlock] s3)))"

subsection \<open>Reading the trace; a running example\<close>

text \<open>The effects that a method added to the trace, from the state before and after.\<close>

definition new_events :: "IPCVal \<Rightarrow> IPCVal \<Rightarrow> event list" where
  "new_events s s' = drop (length (trace s)) (trace s')"

text \<open>
  Concrete states for the examples below. The package defaults are an example (three and
  two seconds); \<open>ex_started\<close> is a new instance after an \<^verbatim>\<open>OnStart\<close> whose dial and
  handshake succeeded.
\<close>

definition ex_pkg :: pkg_vars where
  "ex_pkg = \<lparr> pkg_connTimeout = 3000000000, pkg_connHeartbeat = 2000000000 \<rparr>"

definition ex_new :: IPCVal where
  "ex_new = NewIPCVal ex_pkg ''/tmp/signer.sock''"

definition ex_started :: IPCVal where
  "ex_started = snd (OnStart DialOK (Some 1, None) ex_new)"

text \<open>
  The state in the middle of a reconnect that succeeds, when \<^verbatim>\<open>connect\<close> has returned
  and the handshake has not yet run, and the state at the end of that pass.
\<close>

definition ex_mid :: IPCVal where
  "ex_mid = snd (connect DialOK (emit [EvLogError ''Ping'' (ErrOther ''EOF'')] (emit [EvPing] ex_started)))"

definition ex_reconnected :: IPCVal where
  "ex_reconnected = snd (monitor_iter (Tick (Some (ErrOther ''EOF'')) DialOK (Some 2, None)) ex_started)"

subsection \<open>The package defaults\<close>

text \<open>
  Modelled from the spec: the values of the package-level variables \<^verbatim>\<open>connTimeout\<close> and
  \<^verbatim>\<open>connHeartbeat\<close>, which \<^verbatim>\<open>NewIPCVal\<close> reads and which are declared in another
  file of the package. The spec gives no values; it says of both durations "default
  nonzero". So a default is some duration that is not zero.
\<close>

typedef nonzero_duration = "{d :: int. d \<noteq> 0}"
  by (rule exI [of _ 1]) simp

definition spec_pkg :: "nonzero_duration \<Rightarrow> nonzero_duration \<Rightarrow> pkg_vars" where
  "spec_pkg dt dh =
     \<lparr> pkg_connTimeout = Rep_nonzero_duration dt, pkg_connHeartbeat = Rep_nonzero_duration dh \<rparr>"

section \<open>Properties\<close>

subsection \<open>Auxiliary facts\<close>

lemmas ex_defs = ex_started_def ex_new_def ex_pkg_def NewIPCVal_def

lemma ex_started_fields:
  "conn ex_started = Some (TimeoutConn 0 3000000000)"
  "RemoteSignerClient ex_started = Some 1"
  "cancelPing ex_started = Some ChanOpen"
  "pingTicker ex_started = Some (Ticker 2000000000 True)"
  "dialed ex_started = 1"
  "closedConns ex_started = {}"
  "spawned ex_started = 1"
  "addr ex_started = ''/tmp/signer.sock''"
  "connTimeout ex_started = 3000000000"
  "connHeartbeat ex_started = 2000000000"
  by (simp_all add: ex_defs OnStart_def connect_def storeClient_def emit_def Let_def)

lemma new_events_emit [simp]: "new_events s (emit evs s) = evs"
  by (simp add: new_events_def emit_def)

lemma new_events_append: "trace s' = trace s @ evs \<Longrightarrow> new_events s s' = evs"
  by (simp add: new_events_def)

lemma closeAndLog_fields:
  "conn (closeAndLog m c s) = conn s"
  "RemoteSignerClient (closeAndLog m c s) = RemoteSignerClient s"
  "cancelPing (closeAndLog m c s) = cancelPing s"
  "pingTicker (closeAndLog m c s) = pingTicker s"
  "spawned (closeAndLog m c s) = spawned s"
  "dialed (closeAndLog m c s) = dialed s"
  "addr (closeAndLog m c s) = addr s"
  "connTimeout (closeAndLog m c s) = connTimeout s"
  "connHeartbeat (closeAndLog m c s) = connHeartbeat s"
  "closedConns (closeAndLog m c s) = insert (rawConn c) (closedConns s)"
  by (auto simp: closeAndLog_def connClose_def emit_def)

lemma closeAndLog_trace:
  "trace (closeAndLog m c s) =
     trace s @ (if rawConn c \<in> closedConns s
                then [EvClose (rawConn c), EvLogError m errClosed]
                else [EvClose (rawConn c)])"
  by (simp add: closeAndLog_def connClose_def emit_def)

lemma monitor_iter_fatal:
  "pingTicker s = Some tk \<Longrightarrow>
   monitor_iter (Tick (Some ErrUnexpectedResponse) d h) s =
     (Return, emit [EvPing, EvLogError ''Ping'' ErrUnexpectedResponse] s)"
  by (simp add: monitor_iter_def emit_def Let_def)

lemma monitor_iter_keeps_ticker:
  "pingTicker s = Some tk \<Longrightarrow> \<exists>tk'. pingTicker (snd (monitor_iter c s)) = Some tk'"
  by (cases c)
     (auto simp: monitor_iter_def connect_def storeClient_def emit_def Let_def closeAndLog_fields
           split: option.splits dial_outcome.splits)

lemma monitor_iter_no_panic:
  "pingTicker s = Some tk \<Longrightarrow> fst (monitor_iter c s) \<noteq> Panic p"
  by (cases c)
     (auto simp: monitor_iter_def connect_def storeClient_def emit_def Let_def
           split: option.splits dial_outcome.splits)

lemma monitor_loop_cut:
  "monitor_loop (pre @ c # rest) s =
     (case monitor_loop pre s of
        (Continue, s') \<Rightarrow> monitor_loop (c # rest) s'
      | r \<Rightarrow> r)"
proof (induction pre arbitrary: s)
  case Nil
  show ?case by simp
next
  case (Cons a pre)
  show ?case
  proof (cases "monitor_iter a s")
    case (Pair f s')
    then show ?thesis using Cons.IH [of s'] by (cases f) simp_all
  qed
qed

lemma monitor_loop_keeps_ticker:
  "pingTicker s = Some tk \<Longrightarrow> \<exists>tk'. pingTicker (snd (monitor_loop cs s)) = Some tk'"
proof (induction cs arbitrary: s tk)
  case Nil
  then show ?case by simp
next
  case (Cons c cs)
  obtain f s' where it: "monitor_iter c s = (f, s')" by (cases "monitor_iter c s")
  from monitor_iter_keeps_ticker [OF Cons.prems, of c] it
  obtain tk' where tk': "pingTicker s' = Some tk'" by auto
  show ?case
  proof (cases f)
    case Continue
    with it Cons.IH [OF tk'] show ?thesis by simp
  next
    case Return
    with it tk' show ?thesis by simp
  next
    case (Panic p)
    with it tk' show ?thesis by simp
  qed
qed

lemma monitor_loop_no_panic:
  "pingTicker s = Some tk \<Longrightarrow> fst (monitor_loop cs s) \<noteq> Panic p"
proof (induction cs arbitrary: s tk)
  case Nil
  then show ?case by simp
next
  case (Cons c cs)
  obtain f s' where it: "monitor_iter c s = (f, s')" by (cases "monitor_iter c s")
  from monitor_iter_keeps_ticker [OF Cons.prems, of c] it
  obtain tk' where tk': "pingTicker s' = Some tk'" by auto
  show ?case
  proof (cases f)
    case Continue
    with it Cons.IH [OF tk'] show ?thesis by simp
  next
    case Return
    with it show ?thesis by simp
  next
    case (Panic q)
    with it monitor_iter_no_panic [OF Cons.prems, of c q] show ?thesis by simp
  qed
qed

subsection \<open>The fatal probe\<close>

text \<open>
  Claim C1. Once \<^verbatim>\<open>Ping\<close> returns \<^verbatim>\<open>ErrUnexpectedResponse\<close> on a tick, the monitor
  goroutine exits: it logs the error and returns. Whatever cases the runtime would
  offer afterwards (any number of ticks, with any answers of the collaborators), the
  state is the state before that tick with two trace events added, the probe and its
  log line: no further probe, no dial, no change of a field. The same holds when the
  fatal tick comes after any earlier passes of the loop.
\<close>

theorem fatal_probe_halts_monitor:
  assumes "pingTicker s = Some tk"
  shows "monitor_loop (Tick (Some ErrUnexpectedResponse) d h # rest) s =
           (Return, emit [EvPing, EvLogError ''Ping'' ErrUnexpectedResponse] s)
       \<and> monitor_loop (pre @ Tick (Some ErrUnexpectedResponse) d h # rest) s =
           monitor_loop (pre @ [Tick (Some ErrUnexpectedResponse) d h]) s
       \<and> fst (monitor_loop (pre @ [Tick (Some ErrUnexpectedResponse) d h]) s) = Return"
proof -
  let ?t = "Tick (Some ErrUnexpectedResponse) d h"
  have first: "monitor_loop (?t # rest) s =
           (Return, emit [EvPing, EvLogError ''Ping'' ErrUnexpectedResponse] s)"
    using assms by (simp add: monitor_iter_fatal)
  obtain f s' where pre: "monitor_loop pre s = (f, s')" by (cases "monitor_loop pre s")
  from monitor_loop_keeps_ticker [OF assms, of pre] pre
  obtain tk' where tk': "pingTicker s' = Some tk'" by auto
  have np: "f \<noteq> Panic p" for p
    using monitor_loop_no_panic [OF assms, of pre p] pre by simp
  have cut: "monitor_loop (pre @ ?t # rest) s = monitor_loop (pre @ [?t]) s"
    using pre tk' by (cases f) (simp_all add: monitor_loop_cut monitor_iter_fatal)
  have ret: "fst (monitor_loop (pre @ [?t]) s) = Return"
  proof (cases f)
    case Continue
    with pre tk' show ?thesis by (simp add: monitor_loop_cut monitor_iter_fatal)
  next
    case Return
    with pre show ?thesis by (simp add: monitor_loop_cut)
  next
    case (Panic q)
    with np [of q] show ?thesis by simp
  qed
  from first cut ret show ?thesis by simp
qed

theorem fatal_probe_halts_monitor_witness:
  "pingTicker ex_started = Some (Ticker 2000000000 True)
   \<and> monitor_loop (Tick (Some ErrUnexpectedResponse) DialOK (Some 2, None)
                     # [Tick (Some (ErrOther ''EOF'')) DialOK (Some 3, None), Cancel]) ex_started =
       (Return, emit [EvPing, EvLogError ''Ping'' ErrUnexpectedResponse] ex_started)
   \<and> fst (monitor_loop ([Tick None DialOK (Some 2, None)]
                           @ [Tick (Some ErrUnexpectedResponse) DialOK (Some 2, None)]) ex_started) = Return"
proof -
  have tk: "pingTicker ex_started = Some (Ticker 2000000000 True)"
    by (rule ex_started_fields)
  from tk fatal_probe_halts_monitor [OF tk, of DialOK "(Some 2, None)"
      "[Tick (Some (ErrOther ''EOF'')) DialOK (Some 3, None), Cancel]" "[Tick None DialOK (Some 2, None)]"]
  show ?thesis by simp
qed

subsection \<open>connect\<close>

text \<open>
  Claim C5. \<^verbatim>\<open>connect\<close> fails with the resolver's or the dialer's error, unchanged, and
  then leaves \<^verbatim>\<open>conn\<close> as it was. When the dial succeeds it returns nil and \<^verbatim>\<open>conn\<close>
  is the new raw connection wrapped with \<^verbatim>\<open>connTimeout\<close>; the store is the only effect
  between taking and releasing the write lock. In no case does \<^verbatim>\<open>connect\<close> touch
  the \<^verbatim>\<open>RemoteSignerClient\<close> field or run the handshake.
\<close>

theorem connect_contract:
  "fst (connect (ResolveFails e) s) = Some e
   \<and> fst (connect (DialFails e) s) = Some e
   \<and> conn (snd (connect (ResolveFails e) s)) = conn s
   \<and> conn (snd (connect (DialFails e) s)) = conn s
   \<and> fst (connect DialOK s) = None
   \<and> conn (snd (connect DialOK s)) = Some (TimeoutConn (dialed s) (connTimeout s))
   \<and> new_events s (snd (connect DialOK s)) =
       [EvResolve (addr s), EvDial (addr s), EvLock,
        EvStoreConn (TimeoutConn (dialed s) (connTimeout s)), EvUnlock]
   \<and> RemoteSignerClient (snd (connect d s)) = RemoteSignerClient s
   \<and> EvStoreClient cl \<notin> set (new_events s (snd (connect d s)))
   \<and> EvHandshake tc \<notin> set (new_events s (snd (connect d s)))"
  by (cases d) (simp_all add: connect_def emit_def new_events_def Let_def)

subsection \<open>The passes of the loop, case by case\<close>

text \<open>
  The goroutine exists only after \<^verbatim>\<open>OnStart\<close> has stored the ticker, so the facts
  about a pass of the loop assume that \<^verbatim>\<open>pingTicker\<close> is not nil. Each way through
  the body then gives the state before with some fields replaced and some events added.
\<close>

lemma new_events_emit_upd: "trace s0 = trace s \<Longrightarrow> new_events s (emit evs s0) = evs"
  by (simp add: new_events_def emit_def)

lemma tick_resolve_fails:
  "pingTicker s = Some tk \<Longrightarrow> e \<noteq> ErrUnexpectedResponse \<Longrightarrow>
   monitor_iter (Tick (Some e) (ResolveFails e') h) s =
     (Continue, emit [EvPing, EvLogError ''Ping'' e, EvResolve (addr s),
                      EvLogError ''Reconnecting to remote signer failed'' e'] s)"
  by (simp add: monitor_iter_def connect_def emit_def)

lemma tick_dial_fails:
  "pingTicker s = Some tk \<Longrightarrow> e \<noteq> ErrUnexpectedResponse \<Longrightarrow>
   monitor_iter (Tick (Some e) (DialFails e') h) s =
     (Continue, emit [EvPing, EvLogError ''Ping'' e, EvResolve (addr s), EvDial (addr s),
                      EvLogError ''Reconnecting to remote signer failed'' e'] s)"
  by (simp add: monitor_iter_def connect_def emit_def)

lemma tick_handshake_fails:
  "pingTicker s = Some tk \<Longrightarrow> e \<noteq> ErrUnexpectedResponse \<Longrightarrow>
   monitor_iter (Tick (Some e) DialOK (cl, Some e')) s =
     (Continue,
      emit [EvRUnlock]
        (closeAndLog ''error closing connection'' (TimeoutConn (dialed s) (connTimeout s))
          (emit [EvPing, EvLogError ''Ping'' e, EvResolve (addr s), EvDial (addr s), EvLock,
                 EvStoreConn (TimeoutConn (dialed s) (connTimeout s)), EvUnlock, EvRLock,
                 EvHandshake (Some (TimeoutConn (dialed s) (connTimeout s))), EvStoreClient cl,
                 EvRUnlock, EvLogError ''Re-initializing remote signer client failed'' e', EvRLock]
            (s\<lparr>dialed := Suc (dialed s),
                conn := Some (TimeoutConn (dialed s) (connTimeout s)),
                RemoteSignerClient := cl\<rparr>))))"
  by (simp add: monitor_iter_def connect_def storeClient_def emit_def Let_def)

lemma tick_reconnected:
  "pingTicker s = Some tk \<Longrightarrow> e \<noteq> ErrUnexpectedResponse \<Longrightarrow>
   monitor_iter (Tick (Some e) DialOK (cl, None)) s =
     (Continue,
      emit [EvPing, EvLogError ''Ping'' e, EvResolve (addr s), EvDial (addr s), EvLock,
            EvStoreConn (TimeoutConn (dialed s) (connTimeout s)), EvUnlock, EvRLock,
            EvHandshake (Some (TimeoutConn (dialed s) (connTimeout s))), EvStoreClient cl,
            EvRUnlock, EvLogInfo ''Re-created connection to remote signer'']
        (s\<lparr>dialed := Suc (dialed s),
            conn := Some (TimeoutConn (dialed s) (connTimeout s)),
            RemoteSignerClient := cl\<rparr>))"
  by (simp add: monitor_iter_def connect_def storeClient_def emit_def Let_def)

lemma tick_ok:
  "pingTicker s = Some tk \<Longrightarrow> monitor_iter (Tick None d h) s = (Continue, emit [EvPing] s)"
  by (simp add: monitor_iter_def emit_def)

lemma tick_transient_trace:
  assumes "pingTicker s = Some tk" and "e \<noteq> ErrUnexpectedResponse"
  shows "\<exists>evs. trace (snd (monitor_iter (Tick (Some e) d h) s)) =
           trace s @ [EvPing, EvLogError ''Ping'' e, EvResolve (addr s)] @ evs"
proof (cases d)
  case (ResolveFails x)
  with assms show ?thesis by (simp add: tick_resolve_fails emit_def)
next
  case (DialFails x)
  with assms show ?thesis by (simp add: tick_dial_fails emit_def)
next
  case DialOK
  obtain cl he where h: "h = (cl, he)" by (cases h)
  show ?thesis
  proof (cases he)
    case None
    with DialOK h assms show ?thesis by (simp add: tick_reconnected emit_def)
  next
    case (Some x)
    with DialOK h assms show ?thesis
      by (simp add: tick_handshake_fails emit_def closeAndLog_trace)
  qed
qed

subsection \<open>A reconnect whose dial fails\<close>

text \<open>
  Claim C3 says that after a transient probe failure and a failed dial the pair is
  unchanged, and that the monitor attempts another reconnect at the next tick. The first
  half holds. The second does not hold of every next tick: the loop probes first, and
  when that probe succeeds the pass ends there. In the example the pass after the failed
  dial adds the probe to the trace and nothing else: the address is not resolved and
  nothing is dialed.
\<close>

theorem reconnect_dial_failure_counterexample:
  "new_events
     (snd (monitor_iter (Tick (Some (ErrOther ''EOF'')) (DialFails (ErrOther ''connection refused'')) (None, None)) ex_started))
     (snd (monitor_iter (Tick None DialOK (Some 2, None))
        (snd (monitor_iter (Tick (Some (ErrOther ''EOF'')) (DialFails (ErrOther ''connection refused'')) (None, None)) ex_started))))
     = [EvPing]
   \<and> fst (monitor_iter (Tick None DialOK (Some 2, None))
        (snd (monitor_iter (Tick (Some (ErrOther ''EOF'')) (DialFails (ErrOther ''connection refused'')) (None, None)) ex_started)))
     = Continue
   \<and> EvResolve ''/tmp/signer.sock'' \<notin> set (new_events
     (snd (monitor_iter (Tick (Some (ErrOther ''EOF'')) (DialFails (ErrOther ''connection refused'')) (None, None)) ex_started))
     (snd (monitor_iter (Tick None DialOK (Some 2, None))
        (snd (monitor_iter (Tick (Some (ErrOther ''EOF'')) (DialFails (ErrOther ''connection refused'')) (None, None)) ex_started)))))
   \<and> EvDial ''/tmp/signer.sock'' \<notin> set (new_events
     (snd (monitor_iter (Tick (Some (ErrOther ''EOF'')) (DialFails (ErrOther ''connection refused'')) (None, None)) ex_started))
     (snd (monitor_iter (Tick None DialOK (Some 2, None))
        (snd (monitor_iter (Tick (Some (ErrOther ''EOF'')) (DialFails (ErrOther ''connection refused'')) (None, None)) ex_started)))))"
proof -
  let ?s' = "snd (monitor_iter (Tick (Some (ErrOther ''EOF'')) (DialFails (ErrOther ''connection refused'')) (None, None)) ex_started)"
  have tk: "pingTicker ex_started = Some (Ticker 2000000000 True)" by (rule ex_started_fields)
  have "pingTicker ?s' = Some (Ticker 2000000000 True)"
    using tk by (simp add: tick_dial_fails emit_def)
  then have "monitor_iter (Tick None DialOK (Some 2, None)) ?s' = (Continue, emit [EvPing] ?s')"
    by (rule tick_ok)
  then show ?thesis by simp
qed

text \<open>
  Claim C3, amended. When the probe fails with a transient error (any error but
  \<^verbatim>\<open>ErrUnexpectedResponse\<close>) and \<^verbatim>\<open>connect\<close> then fails (the address does not resolve,
  or the dial fails), the pass changes nothing but the trace: \<^verbatim>\<open>conn\<close> and
  \<^verbatim>\<open>RemoteSignerClient\<close> hold the values they held before, neither nil nor replaced. The
  goroutine stays in its loop and takes the next case from that state. On the next tick
  it probes again, and it calls \<^verbatim>\<open>connect\<close> again (which starts by resolving the
  address) when that probe fails again with a transient error. When that probe succeeds
  the pass only probes, and when it returns \<^verbatim>\<open>ErrUnexpectedResponse\<close> the goroutine
  returns.
\<close>

theorem reconnect_dial_failure_preserves_state:
  assumes "pingTicker s = Some tk"
    and "e \<noteq> ErrUnexpectedResponse"
    and "d = ResolveFails e' \<or> d = DialFails e'"
    and "e2 \<noteq> ErrUnexpectedResponse"
  shows "fst (monitor_iter (Tick (Some e) d h) s) = Continue
       \<and> conn (snd (monitor_iter (Tick (Some e) d h) s)) = conn s
       \<and> RemoteSignerClient (snd (monitor_iter (Tick (Some e) d h) s)) = RemoteSignerClient s
       \<and> (snd (monitor_iter (Tick (Some e) d h) s))\<lparr>trace := trace s\<rparr> = s
       \<and> monitor_loop (Tick (Some e) d h # nxt # rest) s =
           monitor_loop (nxt # rest) (snd (monitor_iter (Tick (Some e) d h) s))
       \<and> take 3 (new_events (snd (monitor_iter (Tick (Some e) d h) s))
                   (snd (monitor_iter (Tick (Some e2) d2 h2) (snd (monitor_iter (Tick (Some e) d h) s))))) =
           [EvPing, EvLogError ''Ping'' e2, EvResolve (addr s)]
       \<and> monitor_iter (Tick None d2 h2) (snd (monitor_iter (Tick (Some e) d h) s)) =
           (Continue, emit [EvPing] (snd (monitor_iter (Tick (Some e) d h) s)))
       \<and> monitor_iter (Tick (Some ErrUnexpectedResponse) d2 h2) (snd (monitor_iter (Tick (Some e) d h) s)) =
           (Return, emit [EvPing, EvLogError ''Ping'' ErrUnexpectedResponse]
                      (snd (monitor_iter (Tick (Some e) d h) s)))"
proof -
  let ?r = "monitor_iter (Tick (Some e) d h) s"
  from assms(1-3) obtain evs where shape: "?r = (Continue, emit evs s)"
    by (auto simp: tick_resolve_fails tick_dial_fails)
  have a: "fst ?r = Continue" by (simp add: shape)
  have b: "conn (snd ?r) = conn s" by (simp add: shape emit_def)
  have c: "RemoteSignerClient (snd ?r) = RemoteSignerClient s" by (simp add: shape emit_def)
  have d': "(snd ?r)\<lparr>trace := trace s\<rparr> = s" by (simp add: shape emit_def)
  have l: "monitor_loop (Tick (Some e) d h # nxt # rest) s = monitor_loop (nxt # rest) (snd ?r)"
    by (simp add: shape)
  have tk': "pingTicker (snd ?r) = Some tk" using assms(1) by (simp add: shape emit_def)
  have ad: "addr (snd ?r) = addr s" by (simp add: shape emit_def)
  from tick_transient_trace [OF tk' assms(4), of d2 h2] ad
  obtain evs' where "trace (snd (monitor_iter (Tick (Some e2) d2 h2) (snd ?r))) =
      trace (snd ?r) @ [EvPing, EvLogError ''Ping'' e2, EvResolve (addr s)] @ evs'"
    by auto
  then have n: "take 3 (new_events (snd ?r) (snd (monitor_iter (Tick (Some e2) d2 h2) (snd ?r)))) =
           [EvPing, EvLogError ''Ping'' e2, EvResolve (addr s)]"
    by (simp add: new_events_def)
  have ok: "monitor_iter (Tick None d2 h2) (snd ?r) = (Continue, emit [EvPing] (snd ?r))"
    using tk' by (rule tick_ok)
  have fatal: "monitor_iter (Tick (Some ErrUnexpectedResponse) d2 h2) (snd ?r) =
      (Return, emit [EvPing, EvLogError ''Ping'' ErrUnexpectedResponse] (snd ?r))"
    using tk' by (rule monitor_iter_fatal)
  from a b c d' l n ok fatal show ?thesis by simp
qed

theorem reconnect_dial_failure_preserves_state_witness:
  "fst (monitor_iter (Tick (Some (ErrOther ''EOF'')) (DialFails (ErrOther ''connection refused'')) (None, None)) ex_started) = Continue
   \<and> conn (snd (monitor_iter (Tick (Some (ErrOther ''EOF'')) (DialFails (ErrOther ''connection refused'')) (None, None)) ex_started))
       = Some (TimeoutConn 0 3000000000)
   \<and> RemoteSignerClient (snd (monitor_iter (Tick (Some (ErrOther ''EOF'')) (DialFails (ErrOther ''connection refused'')) (None, None)) ex_started))
       = Some 1
   \<and> take 3 (new_events (snd (monitor_iter (Tick (Some (ErrOther ''EOF'')) (DialFails (ErrOther ''connection refused'')) (None, None)) ex_started))
        (snd (monitor_iter (Tick (Some (ErrOther ''timeout'')) DialOK (Some 2, None))
          (snd (monitor_iter (Tick (Some (ErrOther ''EOF'')) (DialFails (ErrOther ''connection refused'')) (None, None)) ex_started)))))
       = [EvPing, EvLogError ''Ping'' (ErrOther ''timeout''), EvResolve ''/tmp/signer.sock'']"
proof -
  have tk: "pingTicker ex_started = Some (Ticker 2000000000 True)" by (rule ex_started_fields)
  have e: "ErrOther ''EOF'' \<noteq> ErrUnexpectedResponse" by simp
  have d: "DialFails (ErrOther ''connection refused'') = ResolveFails (ErrOther ''connection refused'')
         \<or> DialFails (ErrOther ''connection refused'') = DialFails (ErrOther ''connection refused'')" by simp
  have e2: "ErrOther ''timeout'' \<noteq> ErrUnexpectedResponse" by simp
  from reconnect_dial_failure_preserves_state [OF tk e d e2, of "(None, None)" _ _ DialOK "(Some 2, None)"]
  show ?thesis by (simp add: ex_started_fields)
qed

subsection \<open>A reconnect whose handshake fails\<close>

text \<open>
  Claim C2 says that after a dial that succeeds and a handshake that fails, the pair
  \<^verbatim>\<open>conn\<close>, \<^verbatim>\<open>RemoteSignerClient\<close> is the pair from before the attempt. It is not:
  \<^verbatim>\<open>connect\<close> has already stored the new connection, and the assignment of the
  handshake's results has stored the pointer that came with the error. In the example the
  instance was started on connection 0 with client 1; after the pass \<^verbatim>\<open>conn\<close> is
  connection 1 and the client is what \<^verbatim>\<open>NewRemoteSignerClient\<close> returned beside its
  error (here nil).
\<close>

theorem reconnect_handshake_failure_counterexample:
  "conn (snd (monitor_iter (Tick (Some (ErrOther ''EOF'')) DialOK (None, Some (ErrOther ''handshake failed''))) ex_started))
       \<noteq> conn ex_started
   \<and> conn ex_started = Some (TimeoutConn 0 3000000000)
   \<and> conn (snd (monitor_iter (Tick (Some (ErrOther ''EOF'')) DialOK (None, Some (ErrOther ''handshake failed''))) ex_started))
       = Some (TimeoutConn 1 3000000000)
   \<and> RemoteSignerClient ex_started = Some 1
   \<and> RemoteSignerClient (snd (monitor_iter (Tick (Some (ErrOther ''EOF'')) DialOK (None, Some (ErrOther ''handshake failed''))) ex_started))
       = None"
  by (simp add: tick_handshake_fails ex_started_fields closeAndLog_fields emit_def)

text \<open>
  Claim C2, amended. When the probe fails with a transient error, the dial succeeds and
  the handshake fails, the goroutine stays in its loop and waits for the next tick, and
  the newly dialed connection is closed. But the pair is not the one from before:
  \<^verbatim>\<open>conn\<close> is the newly dialed (now closed) connection, \<^verbatim>\<open>RemoteSignerClient\<close> is the
  pointer the failed handshake returned, and the connection held before is not closed by
  this pass (the only connection added to the closed ones is the new one).
\<close>

theorem reconnect_handshake_failure:
  assumes "pingTicker s = Some tk" and "e \<noteq> ErrUnexpectedResponse"
  shows "fst (monitor_iter (Tick (Some e) DialOK (cl, Some e')) s) = Continue
       \<and> conn (snd (monitor_iter (Tick (Some e) DialOK (cl, Some e')) s)) =
           Some (TimeoutConn (dialed s) (connTimeout s))
       \<and> RemoteSignerClient (snd (monitor_iter (Tick (Some e) DialOK (cl, Some e')) s)) = cl
       \<and> closedConns (snd (monitor_iter (Tick (Some e) DialOK (cl, Some e')) s)) =
           insert (dialed s) (closedConns s)
       \<and> EvClose (dialed s) \<in> set (new_events s (snd (monitor_iter (Tick (Some e) DialOK (cl, Some e')) s)))
       \<and> monitor_loop (Tick (Some e) DialOK (cl, Some e') # rest) s =
           monitor_loop rest (snd (monitor_iter (Tick (Some e) DialOK (cl, Some e')) s))"
  using assms
  by (simp add: tick_handshake_fails closeAndLog_fields closeAndLog_trace emit_def new_events_def)

theorem reconnect_handshake_failure_witness:
  "closedConns (snd (monitor_iter (Tick (Some (ErrOther ''EOF'')) DialOK (None, Some (ErrOther ''handshake failed''))) ex_started)) = {1}
   \<and> fst (monitor_iter (Tick (Some (ErrOther ''EOF'')) DialOK (None, Some (ErrOther ''handshake failed''))) ex_started) = Continue"
proof -
  have tk: "pingTicker ex_started = Some (Ticker 2000000000 True)" by (rule ex_started_fields)
  have e: "ErrOther ''EOF'' \<noteq> ErrUnexpectedResponse" by simp
  from reconnect_handshake_failure [OF tk e, of None "ErrOther ''handshake failed''"]
  show ?thesis by (simp add: ex_started_fields)
qed


subsection \<open>OnStart and OnStop, case by case\<close>



lemma OnStart_handshake_fails:
  "OnStart DialOK (cl, Some e) s =
     (Inr (Some e),
      emit [EvResolve (addr s), EvDial (addr s), EvLock,
            EvStoreConn (TimeoutConn (dialed s) (connTimeout s)), EvUnlock, EvRLock,
            EvHandshake (Some (TimeoutConn (dialed s) (connTimeout s))), EvStoreClient cl,
            EvRUnlock]
        (s\<lparr>dialed := Suc (dialed s),
            conn := Some (TimeoutConn (dialed s) (connTimeout s)),
            RemoteSignerClient := cl\<rparr>))"
  by (simp add: OnStart_def connect_def storeClient_def emit_def Let_def)

lemma OnStart_launches:
  "0 < connHeartbeat s \<Longrightarrow>
   OnStart DialOK (cl, None) s =
     (Inr None,
      emit [EvResolve (addr s), EvDial (addr s), EvLock,
            EvStoreConn (TimeoutConn (dialed s) (connTimeout s)), EvUnlock, EvRLock,
            EvHandshake (Some (TimeoutConn (dialed s) (connTimeout s))), EvStoreClient cl,
            EvMakeChan, EvNewTicker (connHeartbeat s), EvGo, EvRUnlock]
        (s\<lparr>dialed := Suc (dialed s),
            conn := Some (TimeoutConn (dialed s) (connTimeout s)),
            RemoteSignerClient := cl,
            cancelPing := Some ChanOpen,
            pingTicker := Some (Ticker (connHeartbeat s) True),
            spawned := Suc (spawned s)\<rparr>))"
  by (simp add: OnStart_def connect_def storeClient_def emit_def Let_def)


lemma OnStop_closed_chan:
  "cancelPing s = Some ChanClosed \<Longrightarrow>
   OnStop s = (Some PanicCloseOfClosedChannel, emit [EvCloseChan] s)"
  by (simp add: OnStop_def)

lemma OnStop_nil_chan:
  "cancelPing s = None \<Longrightarrow>
   OnStop s =
     (None, emit [EvRUnlock]
              (case conn s of
                 None \<Rightarrow> emit [EvRLock] s
               | Some tc \<Rightarrow> closeAndLog ''OnStop'' tc (emit [EvRLock] s)))"
  by (simp add: OnStop_def emit_def Let_def split: option.splits)

lemma OnStop_open_chan:
  "cancelPing s = Some ChanOpen \<Longrightarrow>
   OnStop s =
     (None, emit [EvRUnlock]
              (case conn s of
                 None \<Rightarrow> emit [EvCloseChan, EvRLock] (s\<lparr>cancelPing := Some ChanClosed\<rparr>)
               | Some tc \<Rightarrow>
                   closeAndLog ''OnStop'' tc
                     (emit [EvCloseChan, EvRLock] (s\<lparr>cancelPing := Some ChanClosed\<rparr>))))"
  by (simp add: OnStop_def emit_def Let_def split: option.splits)

lemma OnStop_chan_after:
  "cancelPing (snd (OnStop s)) = (case cancelPing s of None \<Rightarrow> None | Some _ \<Rightarrow> Some ChanClosed)"
proof (cases "cancelPing s")
  case None
  then show ?thesis by (simp add: OnStop_nil_chan emit_def closeAndLog_fields split: option.splits)
next
  case (Some ch)
  then show ?thesis
    by (cases ch) (simp_all add: OnStop_open_chan OnStop_closed_chan emit_def closeAndLog_fields
          split: option.splits)
qed

subsection \<open>OnStart whose handshake fails, then OnStop\<close>

text \<open>
  Claim C10. On an instance whose \<^verbatim>\<open>cancelPing\<close> is nil (a new one; the number of
  the connection to be opened next is not among the closed ones), when the first
  dial succeeds and the handshake fails, \<^verbatim>\<open>OnStart\<close> returns the handshake's error.
  The new connection is stored in \<^verbatim>\<open>conn\<close> and is not closed on this path,
  \<^verbatim>\<open>cancelPing\<close> is still nil, no ticker is made and no goroutine is launched. An
  \<^verbatim>\<open>OnStop\<close> that follows does not panic: it skips the nil channel, takes the read
  lock and closes that connection, without an error to log.
\<close>

theorem start_handshake_failure_then_stop:
  assumes "cancelPing s = None" and "dialed s \<notin> closedConns s"
  shows "fst (OnStart DialOK (cl, Some e) s) = Inr (Some e)
       \<and> conn (snd (OnStart DialOK (cl, Some e) s)) = Some (TimeoutConn (dialed s) (connTimeout s))
       \<and> closedConns (snd (OnStart DialOK (cl, Some e) s)) = closedConns s
       \<and> dialed s \<notin> closedConns (snd (OnStart DialOK (cl, Some e) s))
       \<and> EvClose (dialed s) \<notin> set (new_events s (snd (OnStart DialOK (cl, Some e) s)))
       \<and> cancelPing (snd (OnStart DialOK (cl, Some e) s)) = None
       \<and> pingTicker (snd (OnStart DialOK (cl, Some e) s)) = pingTicker s
       \<and> spawned (snd (OnStart DialOK (cl, Some e) s)) = spawned s
       \<and> EvGo \<notin> set (new_events s (snd (OnStart DialOK (cl, Some e) s)))
       \<and> fst (OnStop (snd (OnStart DialOK (cl, Some e) s))) = None
       \<and> new_events (snd (OnStart DialOK (cl, Some e) s))
            (snd (OnStop (snd (OnStart DialOK (cl, Some e) s)))) =
           [EvRLock, EvClose (dialed s), EvRUnlock]
       \<and> closedConns (snd (OnStop (snd (OnStart DialOK (cl, Some e) s)))) =
           insert (dialed s) (closedConns s)"
proof -
  let ?s' = "snd (OnStart DialOK (cl, Some e) s)"
  have s': "?s' = emit [EvResolve (addr s), EvDial (addr s), EvLock,
            EvStoreConn (TimeoutConn (dialed s) (connTimeout s)), EvUnlock, EvRLock,
            EvHandshake (Some (TimeoutConn (dialed s) (connTimeout s))), EvStoreClient cl,
            EvRUnlock]
        (s\<lparr>dialed := Suc (dialed s),
            conn := Some (TimeoutConn (dialed s) (connTimeout s)),
            RemoteSignerClient := cl\<rparr>)"
    by (simp add: OnStart_handshake_fails)
  have start: "fst (OnStart DialOK (cl, Some e) s) = Inr (Some e)"
    by (simp add: OnStart_handshake_fails)
  have f: "conn ?s' = Some (TimeoutConn (dialed s) (connTimeout s))"
      "closedConns ?s' = closedConns s" "cancelPing ?s' = None"
      "pingTicker ?s' = pingTicker s" "spawned ?s' = spawned s"
    using assms(1) by (simp_all add: s' emit_def)
  have ev: "new_events s ?s' = [EvResolve (addr s), EvDial (addr s), EvLock,
            EvStoreConn (TimeoutConn (dialed s) (connTimeout s)), EvUnlock, EvRLock,
            EvHandshake (Some (TimeoutConn (dialed s) (connTimeout s))), EvStoreClient cl,
            EvRUnlock]"
    by (simp add: s' new_events_def emit_def)
  have stop: "OnStop ?s' = (None, emit [EvRUnlock]
       (closeAndLog ''OnStop'' (TimeoutConn (dialed s) (connTimeout s)) (emit [EvRLock] ?s')))"
    using f(1,3) by (simp add: OnStop_nil_chan)
  have cl_emit: "closedConns (emit [EvRLock] ?s') = closedConns s"
    using f(2) by (simp add: emit_def)
  have stop_ev: "new_events ?s' (snd (OnStop ?s')) = [EvRLock, EvClose (dialed s), EvRUnlock]"
    using assms(2) cl_emit
    by (simp add: stop new_events_def emit_def closeAndLog_trace)
  have stop_cl: "closedConns (snd (OnStop ?s')) = insert (dialed s) (closedConns s)"
    using cl_emit by (simp add: stop emit_def closeAndLog_fields)
  from start f ev stop stop_ev stop_cl assms(2) show ?thesis by simp
qed

theorem start_handshake_failure_then_stop_witness:
  "fst (OnStart DialOK (None, Some (ErrOther ''handshake failed'')) ex_new) = Inr (Some (ErrOther ''handshake failed''))
   \<and> conn (snd (OnStart DialOK (None, Some (ErrOther ''handshake failed'')) ex_new)) = Some (TimeoutConn 0 3000000000)
   \<and> closedConns (snd (OnStart DialOK (None, Some (ErrOther ''handshake failed'')) ex_new)) = {}
   \<and> fst (OnStop (snd (OnStart DialOK (None, Some (ErrOther ''handshake failed'')) ex_new))) = None
   \<and> closedConns (snd (OnStop (snd (OnStart DialOK (None, Some (ErrOther ''handshake failed'')) ex_new)))) = {0}"
proof -
  have a: "cancelPing ex_new = None" by (simp add: ex_new_def NewIPCVal_def)
  have b: "dialed ex_new \<notin> closedConns ex_new" by (simp add: ex_new_def NewIPCVal_def)
  have c: "dialed ex_new = 0" "closedConns ex_new = {}" "connTimeout ex_new = 3000000000"
    by (simp_all add: ex_new_def NewIPCVal_def ex_pkg_def)
  from start_handshake_failure_then_stop [OF a b, of None "ErrOther ''handshake failed''"]
  show ?thesis by (simp add: c)
qed


subsection \<open>What never touches the ticker\<close>

lemma tick_leaves_ticker:
  assumes "pingTicker s = Some tk"
  shows "pingTicker (snd (monitor_iter (Tick p d h) s)) = Some tk
       \<and> EvTickerStop \<notin> set (new_events s (snd (monitor_iter (Tick p d h) s)))"
proof (cases p)
  case None
  with assms show ?thesis by (simp add: tick_ok emit_def new_events_def)
next
  case (Some e)
  show ?thesis
  proof (cases "e = ErrUnexpectedResponse")
    case True
    with Some assms show ?thesis by (simp add: monitor_iter_fatal emit_def new_events_def)
  next
    case False
    obtain cl he where h: "h = (cl, he)" by (cases h)
    show ?thesis
    proof (cases d)
      case (ResolveFails x)
      with Some False assms show ?thesis by (simp add: tick_resolve_fails emit_def new_events_def)
    next
      case (DialFails x)
      with Some False assms show ?thesis by (simp add: tick_dial_fails emit_def new_events_def)
    next
      case DialOK
      show ?thesis
      proof (cases he)
        case None
        with DialOK h Some False assms show ?thesis
          by (simp add: tick_reconnected emit_def new_events_def)
      next
        case (Some x)
        with DialOK h \<open>p = Some e\<close> False assms show ?thesis
          by (simp add: tick_handshake_fails emit_def new_events_def closeAndLog_fields
                closeAndLog_trace)
      qed
    qed
  qed
qed

lemma OnStop_leaves_ticker:
  "pingTicker (snd (OnStop s)) = pingTicker s
   \<and> spawned (snd (OnStop s)) = spawned s
   \<and> EvTickerStop \<notin> set (new_events s (snd (OnStop s)))
   \<and> EvGo \<notin> set (new_events s (snd (OnStop s)))"
proof (cases "cancelPing s")
  case None
  then show ?thesis
    by (simp add: OnStop_nil_chan emit_def new_events_def closeAndLog_fields closeAndLog_trace
          split: option.splits)
next
  case (Some ch)
  then show ?thesis
    by (cases ch)
       (simp_all add: OnStop_open_chan OnStop_closed_chan emit_def new_events_def
          closeAndLog_fields closeAndLog_trace split: option.splits)
qed

subsection \<open>Who stops the ticker\<close>

text \<open>
  Claim C9. On the pass where \<^verbatim>\<open>Ping\<close> returns \<^verbatim>\<open>ErrUnexpectedResponse\<close> the goroutine
  returns without calling \<^verbatim>\<open>pingTicker.Stop()\<close>: the ticker is the one from before the
  pass, still running if it was. Over all passes of the loop, the ticker is stopped (and
  the field changed) only when the case taken is the receive on \<^verbatim>\<open>cancelPing\<close>, which
  needs the channel closed; on that case the ticker is stopped and the goroutine returns.
  \<^verbatim>\<open>OnStop\<close> itself does not stop the ticker.
\<close>

theorem ticker_stopped_only_on_cancel:
  assumes "pingTicker s = Some tk"
  shows "fst (monitor_iter (Tick (Some ErrUnexpectedResponse) d h) s) = Return
       \<and> pingTicker (snd (monitor_iter (Tick (Some ErrUnexpectedResponse) d h) s)) = Some tk
       \<and> EvTickerStop \<notin> set (new_events s (snd (monitor_iter (Tick (Some ErrUnexpectedResponse) d h) s)))
       \<and> (EvTickerStop \<in> set (new_events s (snd (monitor_iter c s)))
            \<longrightarrow> c = Cancel \<and> cancelPing s = Some ChanClosed)
       \<and> (pingTicker (snd (monitor_iter c s)) \<noteq> Some tk
            \<longrightarrow> c = Cancel \<and> cancelPing s = Some ChanClosed)
       \<and> (cancelPing s = Some ChanClosed
            \<longrightarrow> monitor_iter Cancel s =
                  (Return, emit [EvTickerStop] (s\<lparr>pingTicker := Some (Ticker (period tk) False)\<rparr>)))
       \<and> pingTicker (snd (OnStop s)) = Some tk
       \<and> EvTickerStop \<notin> set (new_events s (snd (OnStop s)))"
proof -
  have fatal: "fst (monitor_iter (Tick (Some ErrUnexpectedResponse) d h) s) = Return"
    using assms by (simp add: monitor_iter_fatal)
  note tick = tick_leaves_ticker [OF assms]
  have cancel: "monitor_iter Cancel s =
      (if cancelPing s = Some ChanClosed
       then (Return, emit [EvTickerStop] (s\<lparr>pingTicker := Some (Ticker (period tk) False)\<rparr>))
       else (Continue, s))"
    using assms by (simp add: monitor_iter_def)
  have only_ev: "EvTickerStop \<in> set (new_events s (snd (monitor_iter c s)))
            \<longrightarrow> c = Cancel \<and> cancelPing s = Some ChanClosed"
  proof (cases c)
    case (Tick p d' h')
    with tick [of p d' h'] show ?thesis by simp
  next
    case Cancel
    with cancel show ?thesis by (simp add: new_events_def)
  qed
  have only_fld: "pingTicker (snd (monitor_iter c s)) \<noteq> Some tk
            \<longrightarrow> c = Cancel \<and> cancelPing s = Some ChanClosed"
  proof (cases c)
    case (Tick p d' h')
    with tick [of p d' h'] show ?thesis by simp
  next
    case Cancel
    with cancel assms show ?thesis by simp
  qed
  from fatal tick [of "Some ErrUnexpectedResponse" d h] only_ev only_fld cancel
    OnStop_leaves_ticker [of s] assms
  show ?thesis by simp
qed

theorem ticker_stopped_only_on_cancel_witness:
  "fst (monitor_iter (Tick (Some ErrUnexpectedResponse) DialOK (Some 2, None)) ex_started) = Return
   \<and> pingTicker (snd (monitor_iter (Tick (Some ErrUnexpectedResponse) DialOK (Some 2, None)) ex_started))
       = Some (Ticker 2000000000 True)
   \<and> cancelPing (snd (OnStop ex_started)) = Some ChanClosed
   \<and> monitor_iter Cancel (snd (OnStop ex_started)) =
       (Return, emit [EvTickerStop]
          ((snd (OnStop ex_started))\<lparr>pingTicker := Some (Ticker 2000000000 False)\<rparr>))"
proof -
  have tk: "pingTicker ex_started = Some (Ticker 2000000000 True)" by (rule ex_started_fields)
  have tk': "pingTicker (snd (OnStop ex_started)) = Some (Ticker 2000000000 True)"
    using ticker_stopped_only_on_cancel [OF tk] by simp
  have ch: "cancelPing (snd (OnStop ex_started)) = Some ChanClosed"
    by (simp add: OnStop_chan_after ex_started_fields)
  from ticker_stopped_only_on_cancel [OF tk, of DialOK "(Some 2, None)"]
    ticker_stopped_only_on_cancel [OF tk'] ch
  show ?thesis by simp
qed

subsection \<open>OnStop twice\<close>

text \<open>
  Claim C6 says that a second \<^verbatim>\<open>OnStop\<close> does not panic. On an instance that was
  started, the first \<^verbatim>\<open>OnStop\<close> closes \<^verbatim>\<open>cancelPing\<close> and leaves the field
  non-nil, so the second one closes a closed channel, and the Go runtime panics.
\<close>

theorem second_stop_counterexample:
  "fst (OnStop ex_started) = None
   \<and> fst (OnStop (snd (OnStop ex_started))) = Some PanicCloseOfClosedChannel"
proof -
  have "cancelPing (snd (OnStop ex_started)) = Some ChanClosed"
    by (simp add: OnStop_chan_after ex_started_fields)
  then show ?thesis
    by (simp add: OnStop_closed_chan OnStop_open_chan ex_started_fields)
qed

text \<open>
  Claim C6, amended. A second \<^verbatim>\<open>OnStop\<close> returns without a panic only on an instance
  whose \<^verbatim>\<open>cancelPing\<close> is nil (its \<^verbatim>\<open>OnStart\<close> never made the channel). It then
  changes no field; when a connection is stored it calls \<^verbatim>\<open>Close\<close> on it a second
  time, and the error of closing a closed connection is logged, not returned. On an
  instance whose \<^verbatim>\<open>cancelPing\<close> is not nil the second \<^verbatim>\<open>OnStop\<close> panics at
  \<^verbatim>\<open>close(sc.cancelPing)\<close>, before it takes the lock or touches the connection.
\<close>

theorem second_stop:
  "(cancelPing s \<noteq> None \<longrightarrow>
      fst (OnStop (snd (OnStop s))) = Some PanicCloseOfClosedChannel
      \<and> snd (OnStop (snd (OnStop s))) = emit [EvCloseChan] (snd (OnStop s)))
   \<and> (cancelPing s = None \<longrightarrow>
        fst (OnStop s) = None
        \<and> fst (OnStop (snd (OnStop s))) = None
        \<and> (snd (OnStop (snd (OnStop s))))\<lparr>trace := trace (snd (OnStop s))\<rparr> = snd (OnStop s)
        \<and> new_events (snd (OnStop s)) (snd (OnStop (snd (OnStop s)))) =
            (case conn s of
               None \<Rightarrow> [EvRLock, EvRUnlock]
             | Some tc \<Rightarrow> [EvRLock, EvClose (rawConn tc), EvLogError ''OnStop'' errClosed, EvRUnlock]))"
proof -
  have created: "fst (OnStop (snd (OnStop s))) = Some PanicCloseOfClosedChannel
      \<and> snd (OnStop (snd (OnStop s))) = emit [EvCloseChan] (snd (OnStop s))"
    if "cancelPing s \<noteq> None"
  proof -
    from that have "cancelPing (snd (OnStop s)) = Some ChanClosed"
      by (auto simp: OnStop_chan_after)
    then show ?thesis by (simp add: OnStop_closed_chan)
  qed
  have nil: "fst (OnStop s) = None
        \<and> fst (OnStop (snd (OnStop s))) = None
        \<and> (snd (OnStop (snd (OnStop s))))\<lparr>trace := trace (snd (OnStop s))\<rparr> = snd (OnStop s)
        \<and> new_events (snd (OnStop s)) (snd (OnStop (snd (OnStop s)))) =
            (case conn s of
               None \<Rightarrow> [EvRLock, EvRUnlock]
             | Some tc \<Rightarrow> [EvRLock, EvClose (rawConn tc), EvLogError ''OnStop'' errClosed, EvRUnlock])"
    if n: "cancelPing s = None"
  proof -
    let ?s1 = "snd (OnStop s)"
    have ch1: "cancelPing ?s1 = None" using n by (simp add: OnStop_chan_after)
    show ?thesis
    proof (cases "conn s")
      case None
      then have s1: "?s1 = emit [EvRLock, EvRUnlock] s"
        using n by (simp add: OnStop_nil_chan emit_def)
      have c1: "conn ?s1 = None" using None by (simp add: s1 emit_def)
      have "snd (OnStop ?s1) = emit [EvRLock, EvRUnlock] ?s1"
        using ch1 c1 by (simp add: OnStop_nil_chan emit_def)
      with n ch1 None show ?thesis
        by (simp add: OnStop_nil_chan emit_def new_events_def)
    next
      case (Some tc)
      then have s1: "?s1 = emit [EvRUnlock] (closeAndLog ''OnStop'' tc (emit [EvRLock] s))"
        using n by (simp add: OnStop_nil_chan)
      have c1: "conn ?s1 = Some tc" using Some by (simp add: s1 emit_def closeAndLog_fields)
      have cl1: "rawConn tc \<in> closedConns ?s1" by (simp add: s1 emit_def closeAndLog_fields)
      have s2: "snd (OnStop ?s1) = emit [EvRUnlock] (closeAndLog ''OnStop'' tc (emit [EvRLock] ?s1))"
        using ch1 c1 by (simp add: OnStop_nil_chan)
      have cl1': "rawConn tc \<in> closedConns (emit [EvRLock] ?s1)"
        using cl1 by (simp add: emit_def)
      have same: "closeAndLog ''OnStop'' tc (emit [EvRLock] ?s1) =
          emit [EvRLock, EvClose (rawConn tc), EvLogError ''OnStop'' errClosed] ?s1"
        using cl1' by (simp add: closeAndLog_def connClose_def emit_def)
      have s2': "snd (OnStop ?s1) =
          emit [EvRLock, EvClose (rawConn tc), EvLogError ''OnStop'' errClosed, EvRUnlock] ?s1"
        unfolding s2 same by (simp add: emit_def)
      have "fst (OnStop s) = None" "fst (OnStop ?s1) = None"
        using n ch1 by (simp_all add: OnStop_nil_chan)
      moreover have "(snd (OnStop ?s1))\<lparr>trace := trace ?s1\<rparr> = ?s1"
        by (simp add: s2' emit_def)
      moreover have "new_events ?s1 (snd (OnStop ?s1)) =
          [EvRLock, EvClose (rawConn tc), EvLogError ''OnStop'' errClosed, EvRUnlock]"
        by (simp add: s2')
      ultimately show ?thesis using Some by simp
    qed
  qed
  from created nil show ?thesis by blast
qed

theorem second_stop_witness:
  "fst (OnStop (snd (OnStop ex_started))) = Some PanicCloseOfClosedChannel
   \<and> fst (OnStop (snd (OnStop ex_new))) = None
   \<and> new_events (snd (OnStop ex_new)) (snd (OnStop (snd (OnStop ex_new)))) = [EvRLock, EvRUnlock]"
proof -
  have a: "cancelPing ex_started \<noteq> None" by (simp add: ex_started_fields)
  have b: "cancelPing ex_new = None" "conn ex_new = None" by (simp_all add: ex_new_def NewIPCVal_def)
  from second_stop [of ex_started] second_stop [of ex_new] a b show ?thesis by simp
qed


subsection \<open>What never launches a goroutine\<close>



subsection \<open>OnStart and the number of monitors\<close>




subsection \<open>A reconnect that succeeds: the two stores\<close>

lemma tick_reconnected_steps:
  "pingTicker s = Some tk \<Longrightarrow> e \<noteq> ErrUnexpectedResponse \<Longrightarrow>
   monitor_iter (Tick (Some e) DialOK (cl, None)) s =
     (Continue,
      emit [EvLogInfo ''Re-created connection to remote signer'']
        (emit [EvRUnlock]
          (storeClient (cl, None)
            (emit [EvRLock]
              (snd (connect DialOK (emit [EvLogError ''Ping'' e] (emit [EvPing] s))))))))"
  by (simp add: monitor_iter_def emit_def Let_def connect_def storeClient_def)

text \<open>
  Claim C7 says that \<^verbatim>\<open>conn\<close> and \<^verbatim>\<open>RemoteSignerClient\<close> are always updated
  together, so that no half-updated pair is ever visible. A reconnect updates them in two
  steps. In the example the instance runs on connection 0 with client 1, and the pass
  ends on connection 1 with client 2. In between, when \<^verbatim>\<open>connect\<close> has returned, the
  state holds connection 1 with client 1: neither the pair from before nor the pair from
  after. The write lock has been released at that point (the unlock is the last event),
  and the client is stored afterwards, in a section that holds the read lock only.
\<close>

theorem pair_update_counterexample:
  "(conn ex_started, RemoteSignerClient ex_started) = (Some (TimeoutConn 0 3000000000), Some 1)
   \<and> (conn ex_mid, RemoteSignerClient ex_mid) = (Some (TimeoutConn 1 3000000000), Some 1)
   \<and> (conn ex_reconnected, RemoteSignerClient ex_reconnected) = (Some (TimeoutConn 1 3000000000), Some 2)
   \<and> (conn ex_mid, RemoteSignerClient ex_mid) \<noteq> (conn ex_started, RemoteSignerClient ex_started)
   \<and> (conn ex_mid, RemoteSignerClient ex_mid) \<noteq> (conn ex_reconnected, RemoteSignerClient ex_reconnected)
   \<and> new_events ex_started ex_mid =
       [EvPing, EvLogError ''Ping'' (ErrOther ''EOF''), EvResolve ''/tmp/signer.sock'',
        EvDial ''/tmp/signer.sock'', EvLock, EvStoreConn (TimeoutConn 1 3000000000), EvUnlock]
   \<and> new_events ex_mid ex_reconnected =
       [EvRLock, EvHandshake (Some (TimeoutConn 1 3000000000)), EvStoreClient (Some 2), EvRUnlock,
        EvLogInfo ''Re-created connection to remote signer'']
   \<and> ex_reconnected =
       emit [EvLogInfo ''Re-created connection to remote signer'']
         (emit [EvRUnlock] (storeClient (Some 2, None) (emit [EvRLock] ex_mid)))"
proof -
  have tk: "pingTicker ex_started = Some (Ticker 2000000000 True)" by (rule ex_started_fields)
  have e: "ErrOther ''EOF'' \<noteq> ErrUnexpectedResponse" by simp
  have mid_conn: "conn ex_mid = Some (TimeoutConn 1 3000000000)"
    and mid_client: "RemoteSignerClient ex_mid = Some 1"
    and mid_trace: "trace ex_mid = trace ex_started @
       [EvPing, EvLogError ''Ping'' (ErrOther ''EOF''), EvResolve ''/tmp/signer.sock'',
        EvDial ''/tmp/signer.sock'', EvLock, EvStoreConn (TimeoutConn 1 3000000000), EvUnlock]"
    by (simp_all add: ex_mid_def connect_def emit_def Let_def ex_started_fields)
  have fin: "ex_reconnected =
       emit [EvLogInfo ''Re-created connection to remote signer'']
         (emit [EvRUnlock] (storeClient (Some 2, None) (emit [EvRLock] ex_mid)))"
    by (simp add: ex_reconnected_def ex_mid_def tick_reconnected_steps [OF tk e])
  have fin_conn: "conn ex_reconnected = Some (TimeoutConn 1 3000000000)"
    and fin_client: "RemoteSignerClient ex_reconnected = Some 2"
    and fin_trace: "trace ex_reconnected = trace ex_mid @
       [EvRLock, EvHandshake (Some (TimeoutConn 1 3000000000)), EvStoreClient (Some 2), EvRUnlock,
        EvLogInfo ''Re-created connection to remote signer'']"
    unfolding fin by (simp_all add: emit_def storeClient_def mid_conn)
  have ev1: "new_events ex_started ex_mid =
       [EvPing, EvLogError ''Ping'' (ErrOther ''EOF''), EvResolve ''/tmp/signer.sock'',
        EvDial ''/tmp/signer.sock'', EvLock, EvStoreConn (TimeoutConn 1 3000000000), EvUnlock]"
    using mid_trace by (rule new_events_append)
  have ev2: "new_events ex_mid ex_reconnected =
       [EvRLock, EvHandshake (Some (TimeoutConn 1 3000000000)), EvStoreClient (Some 2), EvRUnlock,
        EvLogInfo ''Re-created connection to remote signer'']"
    using fin_trace by (rule new_events_append)
  from mid_conn mid_client fin_conn fin_client ev1 ev2 fin show ?thesis
    by (simp add: ex_started_fields)
qed

text \<open>
  Claim C7, amended. On a reconnect that succeeds, the pair is replaced in two steps and
  not atomically. \<^verbatim>\<open>connect\<close> stores the new connection, alone, between \<^verbatim>\<open>Lock\<close> and
  \<^verbatim>\<open>Unlock\<close>; when it has returned, the state holds the new connection with the client
  from before, and no lock is held. The pass goes on from that state: it takes the read
  lock, runs the handshake, stores the client that was returned and releases the read
  lock. Only at the end of the pass are both values the new ones.
\<close>

theorem pair_update_in_two_steps:
  assumes "pingTicker s = Some tk" and "e \<noteq> ErrUnexpectedResponse"
  shows "conn (snd (connect DialOK (emit [EvLogError ''Ping'' e] (emit [EvPing] s)))) =
           Some (TimeoutConn (dialed s) (connTimeout s))
       \<and> RemoteSignerClient (snd (connect DialOK (emit [EvLogError ''Ping'' e] (emit [EvPing] s)))) =
           RemoteSignerClient s
       \<and> new_events s (snd (connect DialOK (emit [EvLogError ''Ping'' e] (emit [EvPing] s)))) =
           [EvPing, EvLogError ''Ping'' e, EvResolve (addr s), EvDial (addr s), EvLock,
            EvStoreConn (TimeoutConn (dialed s) (connTimeout s)), EvUnlock]
       \<and> monitor_iter (Tick (Some e) DialOK (cl, None)) s =
           (Continue,
            emit [EvLogInfo ''Re-created connection to remote signer'']
              (emit [EvRUnlock]
                (storeClient (cl, None)
                  (emit [EvRLock] (snd (connect DialOK (emit [EvLogError ''Ping'' e] (emit [EvPing] s))))))))
       \<and> conn (snd (monitor_iter (Tick (Some e) DialOK (cl, None)) s)) =
           Some (TimeoutConn (dialed s) (connTimeout s))
       \<and> RemoteSignerClient (snd (monitor_iter (Tick (Some e) DialOK (cl, None)) s)) = cl
       \<and> new_events (snd (connect DialOK (emit [EvLogError ''Ping'' e] (emit [EvPing] s))))
            (snd (monitor_iter (Tick (Some e) DialOK (cl, None)) s)) =
           [EvRLock, EvHandshake (Some (TimeoutConn (dialed s) (connTimeout s))), EvStoreClient cl,
            EvRUnlock, EvLogInfo ''Re-created connection to remote signer'']"
proof -
  let ?mid = "snd (connect DialOK (emit [EvLogError ''Ping'' e] (emit [EvPing] s)))"
  have mid: "?mid = emit [EvPing, EvLogError ''Ping'' e, EvResolve (addr s), EvDial (addr s), EvLock,
            EvStoreConn (TimeoutConn (dialed s) (connTimeout s)), EvUnlock]
      (s\<lparr>dialed := Suc (dialed s), conn := Some (TimeoutConn (dialed s) (connTimeout s))\<rparr>)"
    by (simp add: connect_def emit_def Let_def)
  have pass: "monitor_iter (Tick (Some e) DialOK (cl, None)) s =
           (Continue,
            emit [EvLogInfo ''Re-created connection to remote signer'']
              (emit [EvRUnlock] (storeClient (cl, None) (emit [EvRLock] ?mid))))"
    using assms by (rule tick_reconnected_steps)
  have a: "conn ?mid = Some (TimeoutConn (dialed s) (connTimeout s))"
      "RemoteSignerClient ?mid = RemoteSignerClient s"
      "new_events s ?mid = [EvPing, EvLogError ''Ping'' e, EvResolve (addr s), EvDial (addr s), EvLock,
            EvStoreConn (TimeoutConn (dialed s) (connTimeout s)), EvUnlock]"
    unfolding mid by (simp_all add: emit_def new_events_def)
  have b: "conn (snd (monitor_iter (Tick (Some e) DialOK (cl, None)) s)) =
           Some (TimeoutConn (dialed s) (connTimeout s))"
      "RemoteSignerClient (snd (monitor_iter (Tick (Some e) DialOK (cl, None)) s)) = cl"
    using assms by (simp_all add: tick_reconnected emit_def)
  have c: "new_events ?mid (snd (monitor_iter (Tick (Some e) DialOK (cl, None)) s)) =
           [EvRLock, EvHandshake (Some (TimeoutConn (dialed s) (connTimeout s))), EvStoreClient cl,
            EvRUnlock, EvLogInfo ''Re-created connection to remote signer'']"
    unfolding pass mid by (simp add: emit_def storeClient_def new_events_def)
  from a pass b c show ?thesis by simp
qed

theorem pair_update_in_two_steps_witness:
  "conn (snd (connect DialOK (emit [EvLogError ''Ping'' (ErrOther ''EOF'')] (emit [EvPing] ex_started)))) =
     Some (TimeoutConn 1 3000000000)
   \<and> RemoteSignerClient (snd (connect DialOK (emit [EvLogError ''Ping'' (ErrOther ''EOF'')] (emit [EvPing] ex_started)))) =
     Some 1
   \<and> conn (snd (monitor_iter (Tick (Some (ErrOther ''EOF'')) DialOK (Some 2, None)) ex_started)) =
     Some (TimeoutConn 1 3000000000)
   \<and> RemoteSignerClient (snd (monitor_iter (Tick (Some (ErrOther ''EOF'')) DialOK (Some 2, None)) ex_started)) =
     Some 2"
proof -
  have tk: "pingTicker ex_started = Some (Ticker 2000000000 True)" by (rule ex_started_fields)
  have e: "ErrOther ''EOF'' \<noteq> ErrUnexpectedResponse" by simp
  note t = pair_update_in_two_steps [OF tk e, of "Some 2"]
  note mid_conn = t [THEN conjunct1]
  note mid_client = t [THEN conjunct2, THEN conjunct1]
  note fin_conn = t [THEN conjunct2, THEN conjunct2, THEN conjunct2, THEN conjunct2, THEN conjunct1]
  note fin_client = t [THEN conjunct2, THEN conjunct2, THEN conjunct2, THEN conjunct2,
      THEN conjunct2, THEN conjunct1]
  show ?thesis
    by (simp add: mid_conn mid_client fin_conn fin_client ex_started_fields)
qed

subsection \<open>Defaults and options\<close>

text \<open>
  Claim C8. Both durations have defaults that are not zero: an instance made by
  \<^verbatim>\<open>NewIPCVal\<close> holds the package values, which the spec says are nonzero (their
  declarations are outside this file). Both are overridable when the instance is
  constructed: the options \<^verbatim>\<open>IPCValConnTimeout\<close> and \<^verbatim>\<open>IPCValHeartbeat\<close>, applied to
  what \<^verbatim>\<open>NewIPCVal\<close> returns, in either order, replace the default by the value the
  caller supplies, for every value and every instance. Each option replaces its own field
  and no other, and the values they store are the ones \<^verbatim>\<open>connect\<close> wraps the
  connection with and \<^verbatim>\<open>OnStart\<close> makes the ticker with.
\<close>

theorem defaults_and_options:
  "connTimeout (NewIPCVal (spec_pkg dt dh) a) \<noteq> 0
   \<and> connHeartbeat (NewIPCVal (spec_pkg dt dh) a) \<noteq> 0
   \<and> connTimeout (NewIPCVal pkg a) = pkg_connTimeout pkg
   \<and> connHeartbeat (NewIPCVal pkg a) = pkg_connHeartbeat pkg
   \<and> connTimeout (IPCValConnTimeout t (NewIPCVal pkg a)) = t
   \<and> connHeartbeat (IPCValHeartbeat p (NewIPCVal pkg a)) = p
   \<and> connTimeout (IPCValHeartbeat p (IPCValConnTimeout t (NewIPCVal pkg a))) = t
   \<and> connHeartbeat (IPCValHeartbeat p (IPCValConnTimeout t (NewIPCVal pkg a))) = p
   \<and> IPCValConnTimeout t (IPCValHeartbeat p (NewIPCVal pkg a)) =
       IPCValHeartbeat p (IPCValConnTimeout t (NewIPCVal pkg a))
   \<and> connTimeout (IPCValConnTimeout t sc) = t
   \<and> connHeartbeat (IPCValHeartbeat p sc) = p
   \<and> (IPCValConnTimeout t sc)\<lparr>connTimeout := connTimeout sc\<rparr> = sc
   \<and> (IPCValHeartbeat p sc)\<lparr>connHeartbeat := connHeartbeat sc\<rparr> = sc
   \<and> conn (snd (connect DialOK (IPCValConnTimeout t sc))) = Some (TimeoutConn (dialed sc) t)
   \<and> (0 < p \<longrightarrow> pingTicker (snd (OnStart DialOK (cl, None) (IPCValHeartbeat p sc))) = Some (Ticker p True))"
proof -
  have nz: "connTimeout (NewIPCVal (spec_pkg dt dh) a) \<noteq> 0"
      "connHeartbeat (NewIPCVal (spec_pkg dt dh) a) \<noteq> 0"
    using Rep_nonzero_duration [of dt] Rep_nonzero_duration [of dh]
    by (simp_all add: NewIPCVal_def spec_pkg_def)
  have tick: "pingTicker (snd (OnStart DialOK (cl, None) (IPCValHeartbeat p sc))) = Some (Ticker p True)"
    if "0 < p"
  proof -
    from that have "0 < connHeartbeat (IPCValHeartbeat p sc)" by (simp add: IPCValHeartbeat_def)
    then show ?thesis by (simp add: OnStart_launches emit_def) (simp add: IPCValHeartbeat_def)
  qed
  have rest: "connTimeout (NewIPCVal pkg a) = pkg_connTimeout pkg"
      "connHeartbeat (NewIPCVal pkg a) = pkg_connHeartbeat pkg"
      "connTimeout (IPCValConnTimeout t (NewIPCVal pkg a)) = t"
      "connHeartbeat (IPCValHeartbeat p (NewIPCVal pkg a)) = p"
      "connTimeout (IPCValHeartbeat p (IPCValConnTimeout t (NewIPCVal pkg a))) = t"
      "connHeartbeat (IPCValHeartbeat p (IPCValConnTimeout t (NewIPCVal pkg a))) = p"
      "IPCValConnTimeout t (IPCValHeartbeat p (NewIPCVal pkg a)) =
         IPCValHeartbeat p (IPCValConnTimeout t (NewIPCVal pkg a))"
      "connTimeout (IPCValConnTimeout t sc) = t"
      "connHeartbeat (IPCValHeartbeat p sc) = p"
      "(IPCValConnTimeout t sc)\<lparr>connTimeout := connTimeout sc\<rparr> = sc"
      "(IPCValHeartbeat p sc)\<lparr>connHeartbeat := connHeartbeat sc\<rparr> = sc"
      "conn (snd (connect DialOK (IPCValConnTimeout t sc))) = Some (TimeoutConn (dialed sc) t)"
    by (simp_all add: NewIPCVal_def IPCValConnTimeout_def IPCValHeartbeat_def connect_def emit_def Let_def)
  from nz tick rest show ?thesis by simp
qed

theorem defaults_and_options_witness:
  "connTimeout (NewIPCVal (spec_pkg (Abs_nonzero_duration 3000000000) (Abs_nonzero_duration 2000000000))
       ''/tmp/signer.sock'') = 3000000000
   \<and> connHeartbeat (NewIPCVal (spec_pkg (Abs_nonzero_duration 3000000000) (Abs_nonzero_duration 2000000000))
       ''/tmp/signer.sock'') = 2000000000
   \<and> connTimeout (IPCValHeartbeat 1000000000 (IPCValConnTimeout 5000000000
       (NewIPCVal (spec_pkg (Abs_nonzero_duration 3000000000) (Abs_nonzero_duration 2000000000))
          ''/tmp/signer.sock''))) = 5000000000
   \<and> connHeartbeat (IPCValHeartbeat 1000000000 (IPCValConnTimeout 5000000000
       (NewIPCVal (spec_pkg (Abs_nonzero_duration 3000000000) (Abs_nonzero_duration 2000000000))
          ''/tmp/signer.sock''))) = 1000000000
   \<and> (0::int) < 1000000000
   \<and> pingTicker (snd (OnStart DialOK (Some 1, None) (IPCValHeartbeat 1000000000 ex_new)))
       = Some (Ticker 1000000000 True)"
proof -
  have a: "pkg_connTimeout (spec_pkg (Abs_nonzero_duration 3000000000) (Abs_nonzero_duration 2000000000)) = 3000000000"
      "pkg_connHeartbeat (spec_pkg (Abs_nonzero_duration 3000000000) (Abs_nonzero_duration 2000000000)) = 2000000000"
    by (simp_all add: spec_pkg_def Abs_nonzero_duration_inverse)
  from defaults_and_options [of "Abs_nonzero_duration 3000000000" "Abs_nonzero_duration 2000000000"
      "''/tmp/signer.sock''"
      "spec_pkg (Abs_nonzero_duration 3000000000) (Abs_nonzero_duration 2000000000)"
      5000000000 1000000000 ex_new "Some 1"] a
  show ?thesis by simp
qed

end
